theory Spec2Isabelle
  imports Main
begin

section \<open>The MAF dot-plot builder of report\_utils.py\<close>

text \<open>
  This theory embeds \<^verbatim>\<open>dotplot_assembly\<close> of
  \<^verbatim>\<open>bin/workflow_glue/report_utils/report_utils.py\<close>.

  Conventions of the embedding.
  \<^item> The opened file \<^verbatim>\<open>maf\<close> is the list of the lines that successive
    \<^verbatim>\<open>readline()\<close> calls return, each with its line terminator; at the end of
    the file \<^verbatim>\<open>readline()\<close> returns the empty string.
  \<^item> Text is ASCII. \<^verbatim>\<open>str.split()\<close> cuts at the characters of
    \<^verbatim>\<open>str.isspace\<close>; \<^verbatim>\<open>int()\<close> skips the six white-space characters of C
    only. The interpreter's configurable limit on the number of digits of a
    literal is outside the model.
  \<^item> A Python integer is an \<open>int\<close>. A cell of an integer column of the table is
    a 64-bit signed integer: an \<open>int\<close> in the range of \<open>in_int64\<close>, brought back
    into that range by \<open>int64\<close> after every operation, as the column's
    arithmetic wraps around. A cell of a floating-point column that was filled
    from integers is the integer value of a double, rounded by \<open>float64\<close>.
  \<^item> Every \<^verbatim>\<open>raise\<close> is a value \<open>Inl e\<close> of the result type.
  \<^item> A missing table cell (pandas pads short rows with \<^verbatim>\<open>None\<close>; a column
    assigned under a row mask holds \<^verbatim>\<open>NaN\<close> elsewhere) is \<open>None\<close>.
\<close>

subsection \<open>Errors\<close>

datatype error =
    IOError string
  | IndexError
  | ValueError
  | TypeError
  | OverflowError
  | UnboundLocalError

subsection \<open>String primitives\<close>

text \<open>\<^verbatim>\<open>s.startswith(p)\<close>\<close>

definition startswith :: "string \<Rightarrow> string \<Rightarrow> bool" where
  "startswith s p = (take (length p) s = p)"

text \<open>\<^verbatim>\<open>sub in s\<close>\<close>

fun py_in :: "string \<Rightarrow> string \<Rightarrow> bool" where
  "py_in sub [] = (sub = [])"
| "py_in sub (c # cs) = (startswith (c # cs) sub \<or> py_in sub cs)"

text \<open>\<^verbatim>\<open>c.isspace()\<close> on ASCII: tab, line feed, vertical tab, form feed, carriage
  return, the four separators 0x1C..0x1F and the blank.\<close>

definition isspace :: "char \<Rightarrow> bool" where
  "isspace c = (c \<in> set [CHR 0x09, CHR 0x0A, CHR 0x0B, CHR 0x0C, CHR 0x0D,
                          CHR 0x1C, CHR 0x1D, CHR 0x1E, CHR 0x1F, CHR 0x20])"

text \<open>\<^verbatim>\<open>s.split()\<close>: the maximal runs of non-space characters, in order.\<close>

fun split_ws_aux :: "string \<Rightarrow> string \<Rightarrow> string list" where
  "split_ws_aux cur [] = (if cur = [] then [] else [rev cur])"
| "split_ws_aux cur (c # cs) =
     (if isspace c
      then (if cur = [] then split_ws_aux [] cs else rev cur # split_ws_aux [] cs)
      else split_ws_aux (c # cur) cs)"

definition split_ws :: "string \<Rightarrow> string list" where
  "split_ws s = split_ws_aux [] s"

text \<open>\<^verbatim>\<open>xs[i:j]\<close> for \<open>0 \<le> i \<le> j\<close>; a slice never raises.\<close>

definition slice :: "nat \<Rightarrow> nat \<Rightarrow> 'a list \<Rightarrow> 'a list" where
  "slice i j xs = take (j - i) (drop i xs)"

text \<open>\<^verbatim>\<open>s.split(sep)\<close> for a non-empty separator: cut at each occurrence of
  \<open>sep\<close>, scanning from the left, occurrences not overlapping. After a match the
  scan skips the remaining \<open>k\<close> characters of the separator.\<close>

fun split_sep_aux :: "string \<Rightarrow> nat \<Rightarrow> string \<Rightarrow> string \<Rightarrow> string list" where
  "split_sep_aux sep k cur [] = [rev cur]"
| "split_sep_aux sep (Suc k) cur (c # cs) = split_sep_aux sep k cur cs"
| "split_sep_aux sep 0 cur (c # cs) =
     (if sep \<noteq> [] \<and> startswith (c # cs) sep
      then rev cur # split_sep_aux sep (length sep - 1) [] cs
      else split_sep_aux sep 0 (c # cur) cs)"

definition py_split :: "string \<Rightarrow> string \<Rightarrow> string list" where
  "py_split s sep = split_sep_aux sep 0 [] s"

text \<open>\<^verbatim>\<open>xs[i]\<close> for \<open>0 \<le> i\<close>: IndexError out of range.\<close>

definition index :: "'a list \<Rightarrow> nat \<Rightarrow> error + 'a" where
  "index xs i = (if i < length xs then Inr (xs ! i) else Inl IndexError)"

text \<open>\<^verbatim>\<open>int(s)\<close> in base ten: the white space of C around the literal is
  skipped (tab, line feed, vertical tab, form feed, carriage return, blank; not
  the separators 0x1C..0x1F), one sign is allowed, then digits, single underscores
  allowed between digits. Anything else is a ValueError.\<close>

definition Py_ISSPACE :: "char \<Rightarrow> bool" where
  "Py_ISSPACE c = (c \<in> set [CHR 0x09, CHR 0x0A, CHR 0x0B, CHR 0x0C, CHR 0x0D, CHR 0x20])"

definition isdigit :: "char \<Rightarrow> bool" where
  "isdigit c = (48 \<le> (of_char c :: nat) \<and> (of_char c :: nat) \<le> 57)"

definition digit_val :: "char \<Rightarrow> int" where
  "digit_val c = of_char c - 48"

definition skip_space :: "string \<Rightarrow> string" where
  "skip_space s = rev (dropWhile Py_ISSPACE (rev (dropWhile Py_ISSPACE s)))"

fun digits_value :: "int \<Rightarrow> string \<Rightarrow> int option" where
  "digits_value acc [] = Some acc"
| "digits_value acc [c] = (if isdigit c then Some (10 * acc + digit_val c) else None)"
| "digits_value acc (c # d # ds) =
     (if isdigit c then digits_value (10 * acc + digit_val c) (d # ds)
      else if c = CHR ''_'' \<and> isdigit d then digits_value (10 * acc + digit_val d) ds
      else None)"

definition unsigned_literal :: "string \<Rightarrow> int option" where
  "unsigned_literal s =
     (case s of [] \<Rightarrow> None
      | c # cs \<Rightarrow> if isdigit c then digits_value (digit_val c) cs else None)"

definition signed_literal :: "string \<Rightarrow> int option" where
  "signed_literal s =
     (case s of [] \<Rightarrow> None
      | c # cs \<Rightarrow>
          if c = CHR ''-'' then map_option (\<lambda>n. - n) (unsigned_literal cs)
          else if c = CHR ''+'' then unsigned_literal cs
          else unsigned_literal (c # cs))"

definition py_int :: "string \<Rightarrow> error + int" where
  "py_int s =
     (case signed_literal (skip_space s) of None \<Rightarrow> Inl ValueError | Some n \<Rightarrow> Inr n)"

subsection \<open>The file and the parsing loop (source lines 174--195)\<close>

type_synonym maf_file = "string list"

text \<open>\<^verbatim>\<open>maf.readline()\<close>: the next line and the file behind it; the empty string
  at the end of the file.\<close>

definition readline :: "maf_file \<Rightarrow> string \<times> maf_file" where
  "readline maf = (case maf of [] \<Rightarrow> ([], []) | l # ls \<Rightarrow> (l, ls))"

text \<open>The \<^verbatim>\<open>while True\<close> loop. The state is the local variable
  \<^verbatim>\<open>read_length\<close> (\<open>None\<close> while it is unbound), the list \<^verbatim>\<open>records\<close> and the
  file position. The branches are the source's, in the source's order.\<close>

function parse_loop ::
  "int option \<Rightarrow> string list list \<Rightarrow> maf_file \<Rightarrow> error + (int option \<times> string list list)" where
  "parse_loop read_length records maf =
     (let line = fst (readline maf); maf1 = snd (readline maf) in
      if startswith line ''#'' then
        (if py_in ''letters'' line then
           (case index (py_split line ''letters='') 1 of
              Inl e \<Rightarrow> Inl e
            | Inr t \<Rightarrow>
                (case py_int t of
                   Inl e \<Rightarrow> Inl e
                 | Inr n \<Rightarrow> parse_loop (Some n) records maf1))
         else parse_loop read_length records maf1)
      else if startswith line ''a'' then
        (let r1 = slice 1 5 (split_ws (fst (readline maf1)));
             maf2 = snd (readline maf1);
             r2 = slice 1 5 (split_ws (fst (readline maf2)));
             maf3 = snd (readline maf2);
             maf4 = snd (readline maf3)
         in parse_loop read_length (records @ [r1 @ r2]) maf4)
      else if line = [] then Inr (read_length, records)
      else Inl (IOError ''Cannot read alignment file''))"
  by pat_completeness auto

termination
proof (relation "measure (\<lambda>(rl, recs, maf). length maf)", goal_cases)
  have le: "length (snd (readline maf)) \<le> length maf" for maf
    by (cases maf) (simp_all add: readline_def)
  have less: "length (snd (readline maf)) < length maf"
    if "startswith (fst (readline maf)) [c]" for maf c
    using that by (cases maf) (auto simp: readline_def startswith_def)
  {
    case 1
    show ?case by simp
  next
    case (2 read_length records maf line maf1 t n)
    then show ?case using less [of maf] by simp
  next
    case (3 read_length records maf line maf1)
    then show ?case using less [of maf] by simp
  next
    case (4 read_length records maf line maf1 r1 maf2 r2 maf3 maf4)
    have "length maf4 \<le> length maf1"
      using 4 le [of maf1] le [of maf2] le [of maf3] by simp
    moreover have "length maf1 < length maf"
      using 4 less [of maf] by simp
    ultimately show ?case by simp
  }
qed

declare parse_loop.simps [simp del]

subsection \<open>The table (source lines 198--202)\<close>

text \<open>A row of the table. The eight columns of \<^verbatim>\<open>names\<close> come first; the
  columns \<^verbatim>\<open>qend\<close> and \<^verbatim>\<open>rend\<close> are added by the later assignments and are
  \<open>None\<close> while they are absent or hold no value. The type parameter is the cell
  type of the four numeric columns: a token (or a missing cell) before
  \<^verbatim>\<open>astype\<close>, an integer after it.\<close>

record 'a row =
  ref :: "string option"
  rstart :: 'a
  rlen :: 'a
  rorient :: "string option"
  query :: "string option"
  qstart :: 'a
  qlen :: 'a
  qorient :: "string option"
  qend :: "int option"
  rend :: "int option"

definition names :: "string list" where
  "names = [''ref'', ''rstart'', ''rlen'', ''rorient'', ''query'', ''qstart'', ''qlen'', ''qorient'']"

text \<open>pandas pads a short row of the nested list with \<^verbatim>\<open>None\<close> up to the width
  of the longest row.\<close>

definition pad :: "nat \<Rightarrow> string list \<Rightarrow> string option list" where
  "pad k r = map Some r @ replicate (k - length r) None"

text \<open>The cells of a padded row are bound to the columns of \<^verbatim>\<open>names\<close> by
  position.\<close>

definition mk_row :: "string option list \<Rightarrow> (string option) row" where
  "mk_row cells =
     \<lparr>ref = cells ! 0, rstart = cells ! 1, rlen = cells ! 2, rorient = cells ! 3,
      query = cells ! 4, qstart = cells ! 5, qlen = cells ! 6, qorient = cells ! 7,
      qend = None, rend = None\<rparr>"

text \<open>\<^verbatim>\<open>pd.DataFrame(records, columns=names)\<close>: an empty list gives the empty
  table; otherwise the width of the data is the length of the longest row, and a
  width other than the number of column names is a ValueError.\<close>

definition DataFrame :: "string list list \<Rightarrow> error + (string option) row list" where
  "DataFrame records =
     (if records = [] then Inr []
      else if fold max (map length records) 0 \<noteq> length names then Inl ValueError
      else Inr (map (\<lambda>r. mk_row (pad (length names) r)) records))"

text \<open>The range of a 64-bit signed cell, the wrap-around of the column
  arithmetic into it, and the conversion of such a cell to double precision
  (53 significant bits, round to nearest, ties to even). \<open>float64\<close> is meant for
  arguments of the 64-bit range: there the rounded value is an integer again,
  and \<open>e\<close> is the number of low bits that do not fit.\<close>

definition in_int64 :: "int \<Rightarrow> bool" where
  "in_int64 x = (- (2 ^ 63) \<le> x \<and> x < 2 ^ 63)"

definition int64 :: "int \<Rightarrow> int" where
  "int64 x = (x + 2 ^ 63) mod 2 ^ 64 - 2 ^ 63"

definition round_half_even :: "nat \<Rightarrow> int \<Rightarrow> int" where
  "round_half_even e m =
     (let q = m div 2 ^ e; r = m mod 2 ^ e; h = 2 ^ e div 2
      in (if h < r \<or> (r = h \<and> odd q) then q + 1 else q) * 2 ^ e)"

definition float64 :: "int \<Rightarrow> int" where
  "float64 x =
     (let m = \<bar>x\<bar>; e = length (filter (\<lambda>k. 2 ^ k \<le> m) [53..<64])
      in if e = 0 then x else sgn x * round_half_even e m)"

text \<open>The conversion of one cell by \<^verbatim>\<open>astype(int)\<close>: \<^verbatim>\<open>int(None)\<close> is a
  TypeError, \<^verbatim>\<open>int\<close> of a token that is no integer literal a ValueError, and
  an integer that does not fit the 64-bit cell an OverflowError.\<close>

definition to_int :: "string option \<Rightarrow> error + int" where
  "to_int v =
     (case v of
        None \<Rightarrow> Inl TypeError
      | Some s \<Rightarrow>
          (case py_int s of
             Inl e \<Rightarrow> Inl e
           | Inr n \<Rightarrow> if in_int64 n then Inr n else Inl OverflowError))"

text \<open>The conversion of one column, cell by cell from the top; the first failure
  is raised.\<close>

fun astype_column :: "string option list \<Rightarrow> error + int list" where
  "astype_column [] = Inr []"
| "astype_column (v # vs) =
     (case to_int v of
        Inl e \<Rightarrow> Inl e
      | Inr n \<Rightarrow> (case astype_column vs of Inl e \<Rightarrow> Inl e | Inr ns \<Rightarrow> Inr (n # ns)))"

definition typed_row :: "(string option) row \<Rightarrow> int \<Rightarrow> int \<Rightarrow> int \<Rightarrow> int \<Rightarrow> int row" where
  "typed_row r a b c d =
     \<lparr>ref = ref r, rstart = a, rlen = b, rorient = rorient r,
      query = query r, qstart = c, qlen = d, qorient = qorient r,
      qend = qend r, rend = rend r\<rparr>"

fun typed_rows ::
  "(string option) row list \<Rightarrow> int list \<Rightarrow> int list \<Rightarrow> int list \<Rightarrow> int list \<Rightarrow> int row list" where
  "typed_rows (r # rs) (a # as) (b # bs) (c # cs) (d # ds) =
     typed_row r a b c d # typed_rows rs as bs cs ds"
| "typed_rows _ _ _ _ _ = []"

text \<open>\<^verbatim>\<open>df_all.astype({'qstart': int, 'qlen': int, 'rstart': int, 'rlen': int})\<close>:
  the columns are converted in the order they have in the table.\<close>

definition astype :: "(string option) row list \<Rightarrow> error + int row list" where
  "astype df =
     (case astype_column (map rstart df) of Inl e \<Rightarrow> Inl e | Inr as \<Rightarrow>
     (case astype_column (map rlen df) of Inl e \<Rightarrow> Inl e | Inr bs \<Rightarrow>
     (case astype_column (map qstart df) of Inl e \<Rightarrow> Inl e | Inr cs \<Rightarrow>
     (case astype_column (map qlen df) of Inl e \<Rightarrow> Inl e | Inr ds \<Rightarrow>
      Inr (typed_rows df as bs cs ds)))))"

text \<open>Lines 174--202 together: the value of \<^verbatim>\<open>read_length\<close> and the typed
  table \<^verbatim>\<open>df_all\<close>, one row per parsed alignment block, in file order.\<close>

definition maf_table :: "maf_file \<Rightarrow> error + (int option \<times> int row list)" where
  "maf_table maf =
     (case parse_loop None [] maf of Inl e \<Rightarrow> Inl e | Inr (read_length, records) \<Rightarrow>
     (case DataFrame records of Inl e \<Rightarrow> Inl e | Inr df \<Rightarrow>
     (case astype df of Inl e \<Rightarrow> Inl e | Inr df_all \<Rightarrow>
      Inr (read_length, df_all))))"

subsection \<open>The two passes over the table (source lines 203--226)\<close>

text \<open>\<^verbatim>\<open>df[col] = expr\<close> assigns row by row; \<^verbatim>\<open>df.loc[mask, col] = expr\<close>
  assigns in the rows of the mask only. The right-hand side is evaluated on the
  table as it is before the assignment.\<close>

definition assign :: "('r \<Rightarrow> 'r) \<Rightarrow> 'r list \<Rightarrow> 'r list" where
  "assign f df = map f df"

definition loc_assign :: "('r \<Rightarrow> bool) \<Rightarrow> ('r \<Rightarrow> 'r) \<Rightarrow> 'r list \<Rightarrow> 'r list" where
  "loc_assign sel f df = map (\<lambda>r. if sel r then f r else r) df"

text \<open>\<^verbatim>\<open>df_all[df_all.qorient.isin([v])]\<close>\<close>

definition qorient_isin :: "string \<Rightarrow> int row list \<Rightarrow> int row list" where
  "qorient_isin v df_all = filter (\<lambda>r. qorient r = Some v) df_all"

text \<open>Lines 204--210, statement by statement. The columns \<^verbatim>\<open>rstart\<close>,
  \<^verbatim>\<open>rlen\<close>, \<^verbatim>\<open>qstart\<close>, \<^verbatim>\<open>qlen\<close> and the new column \<^verbatim>\<open>qend\<close> are 64-bit
  integer columns. The column \<^verbatim>\<open>rend\<close> is created by an assignment under a
  row mask: pandas creates it as a floating-point column of \<^verbatim>\<open>NaN\<close> and
  converts the assigned integers to double precision.\<close>

definition forward_pass :: "int row list \<Rightarrow> int row list" where
  "forward_pass df_all =
     (let df = qorient_isin ''+'' df_all;
          df = assign (\<lambda>r. r\<lparr>qend := Some (int64 (qstart r + qlen r))\<rparr>) df;
          df = loc_assign (\<lambda>r. rorient r = Some ''+'')
                 (\<lambda>r. r\<lparr>rend := Some (float64 (int64 (rstart r + rlen r)))\<rparr>) df;
          df = loc_assign (\<lambda>r. rorient r = Some ''-'')
                 (\<lambda>r. r\<lparr>rend := Some (float64 (rstart r))\<rparr>) df;
          df = loc_assign (\<lambda>r. rorient r = Some ''-'')
                 (\<lambda>r. r\<lparr>rstart := int64 (rstart r - rlen r)\<rparr>) df
      in df)"

text \<open>Lines 216--221, statement by statement, for a bound \<^verbatim>\<open>read_length\<close>. All
  three assignments are of whole columns, so \<^verbatim>\<open>rend\<close> is a 64-bit integer
  column here. In \<^verbatim>\<open>read_length - df['qstart']\<close> the Python integer is converted
  to the type of the column; a \<^verbatim>\<open>read_length\<close> outside the 64-bit range is
  taken to raise the OverflowError of that conversion (NumPy 2; earlier versions
  change the type of the result instead).\<close>

definition reverse_pass :: "int \<Rightarrow> int row list \<Rightarrow> error + int row list" where
  "reverse_pass read_length df_all =
     (let df = qorient_isin ''-'' df_all in
      if \<not> in_int64 read_length then Inl OverflowError
      else
        (let df = assign (\<lambda>r. r\<lparr>qstart := int64 (read_length - qstart r)\<rparr>) df;
             df = assign (\<lambda>r. r\<lparr>qend := Some (int64 (qstart r - qlen r))\<rparr>) df;
             df = assign (\<lambda>r. r\<lparr>rend := Some (int64 (rstart r + rlen r))\<rparr>) df
         in Inr df))"

text \<open>A segment glyph over a table:
  \<^verbatim>\<open>Segment(x0='rstart', y0='qstart', x1='rend', y1='qend', line_color=...)\<close>.\<close>

record segment =
  x0 :: int
  y0 :: int
  x1 :: "int option"
  y1 :: "int option"

record glyph =
  line_color :: string
  segments :: "segment list"

definition Segment :: "string \<Rightarrow> int row list \<Rightarrow> glyph" where
  "Segment color df =
     \<lparr>line_color = color,
      segments = map (\<lambda>r. \<lparr>x0 = rstart r, y0 = qstart r, x1 = rend r, y1 = qend r\<rparr>) df\<rparr>"

text \<open>The whole function. The returned plot is the list of its glyphs in the
  order of the \<^verbatim>\<open>add_glyph\<close> calls: the black one of the forward queries, then
  the red one of the reverse queries. \<^verbatim>\<open>read_length\<close> is read at line 219
  whatever the table holds, after the black glyph was added.\<close>

definition dotplot_assembly :: "maf_file \<Rightarrow> error + glyph list" where
  "dotplot_assembly maf =
     (case maf_table maf of
        Inl e \<Rightarrow> Inl e
      | Inr (read_length, df_all) \<Rightarrow>
          (let plot = [Segment ''black'' (forward_pass df_all)] in
           (case read_length of
              None \<Rightarrow> Inl UnboundLocalError
            | Some L \<Rightarrow>
                (case reverse_pass L df_all of
                   Inl e \<Rightarrow> Inl e
                 | Inr df \<Rightarrow> Inr (plot @ [Segment ''red'' df])))))"

subsection \<open>Shapes of input files, for stating the properties\<close>

text \<open>The lines the loop consumes in one iteration: a comment line, or an
  \<^verbatim>\<open>a\<close> line with the three lines read after it.\<close>

datatype chunk =
    Comment string
  | Block string string string string

fun chunk_lines :: "chunk \<Rightarrow> string list" where
  "chunk_lines (Comment l) = [l]"
| "chunk_lines (Block a l1 l2 sep) = [a, l1, l2, sep]"

text \<open>A comment chunk begins with \<^verbatim>\<open>#\<close> and, when it contains
  \<^verbatim>\<open>letters\<close>, its \<^verbatim>\<open>read_length\<close> is read without an exception. A block
  chunk begins with \<^verbatim>\<open>a\<close>; nothing is asked of its three other lines.\<close>

fun chunk_ok :: "chunk \<Rightarrow> bool" where
  "chunk_ok (Comment l) =
     (startswith l ''#'' \<and>
      (if py_in ''letters'' l
       then (case index (py_split l ''letters='') 1 of
               Inl e \<Rightarrow> False
             | Inr t \<Rightarrow> (case py_int t of Inl e \<Rightarrow> False | Inr n \<Rightarrow> True))
       else True))"
| "chunk_ok (Block a l1 l2 sep) = startswith a ''a''"

text \<open>No line of the file is a comment line containing \<^verbatim>\<open>letters=\<close>.\<close>

definition no_letters_comment :: "maf_file \<Rightarrow> bool" where
  "no_letters_comment maf = list_all (\<lambda>l. \<not> (startswith l ''#'' \<and> py_in ''letters='' l)) maf"

section \<open>One iteration of the loop\<close>

lemma readline_Nil: "readline [] = ([], [])"
  by (simp add: readline_def)

lemma readline_Cons: "readline (l # ls) = (l, ls)"
  by (simp add: readline_def)

lemma snd_readline: "snd (readline maf) = tl maf"
  by (cases maf) (simp_all add: readline_def)

lemma startswith_Nil: "\<not> startswith [] (c # p)"
  by (simp add: startswith_def)

lemma startswith_a_not_hash: "startswith s ''a'' \<Longrightarrow> \<not> startswith s ''#''"
  by (cases s) (auto simp: startswith_def)

lemma parse_loop_eof: "parse_loop rl recs [] = Inr (rl, recs)"
  by (subst parse_loop.simps) (simp add: readline_Nil startswith_Nil)

lemma parse_loop_plain_comment:
  "startswith l ''#'' \<Longrightarrow> \<not> py_in ''letters'' l \<Longrightarrow>
   parse_loop rl recs (l # rest) = parse_loop rl recs rest"
  by (subst parse_loop.simps) (simp add: readline_Cons)

lemma parse_loop_letters_comment:
  "startswith l ''#'' \<Longrightarrow> py_in ''letters'' l \<Longrightarrow>
   parse_loop rl recs (l # rest) =
     (case index (py_split l ''letters='') 1 of
        Inl e \<Rightarrow> Inl e
      | Inr t \<Rightarrow> (case py_int t of Inl e \<Rightarrow> Inl e | Inr n \<Rightarrow> parse_loop (Some n) recs rest))"
  by (subst parse_loop.simps) (simp add: readline_Cons)

lemma parse_loop_block:
  "startswith a ''a'' \<Longrightarrow>
   parse_loop rl recs (a # rest) =
     parse_loop rl
       (recs @ [slice 1 5 (split_ws (fst (readline rest))) @
                slice 1 5 (split_ws (fst (readline (tl rest))))])
       (tl (tl (tl rest)))"
  by (subst parse_loop.simps) (simp add: readline_Cons snd_readline startswith_a_not_hash Let_def)

lemma parse_loop_other:
  "\<not> startswith l ''#'' \<Longrightarrow> \<not> startswith l ''a'' \<Longrightarrow>
   parse_loop rl recs (l # rest) =
     (if l = [] then Inr (rl, recs) else Inl (IOError ''Cannot read alignment file''))"
  by (subst parse_loop.simps) (simp add: readline_Cons)

section \<open>The worked example\<close>

text \<open>
  C1. The file made of the comment line \<^verbatim>\<open># letters=1000\<close>, a block with forward
  reference and forward query (reference start 10, length 5; query start 20,
  length 5) and a block with a reverse query (reference start 30, length 4; query
  start 50, length 4) yields exactly one segment of the black, forward glyph,
  (10,20)-(15,25), and exactly one segment of the red, reverse glyph,
  (30,950)-(34,946).
\<close>

theorem dotplot_assembly_example:
  "dotplot_assembly
     [''# letters=1000\<newline>'',
      ''a score=10\<newline>'',
      ''s ref 10 5 + 100 ACGTA\<newline>'',
      ''s qry 20 5 + 1000 ACGTA\<newline>'',
      ''\<newline>'',
      ''a score=8\<newline>'',
      ''s ref 30 4 + 100 ACGT\<newline>'',
      ''s qry 50 4 - 1000 ACGT\<newline>'',
      ''\<newline>'']
   = Inr [\<lparr>line_color = ''black'',
            segments = [\<lparr>x0 = 10, y0 = 20, x1 = Some 15, y1 = Some 25\<rparr>]\<rparr>,
          \<lparr>line_color = ''red'',
            segments = [\<lparr>x0 = 30, y0 = 950, x1 = Some 34, y1 = Some 946\<rparr>]\<rparr>]"
  by code_simp

section \<open>The coordinates of the segments\<close>

text \<open>Inside the 64-bit range the wrap-around changes nothing, and below
  \<open>2 ^ 53\<close> the conversion to double precision changes nothing. The two passes
  keep one row per selected block, in the order of the table, and the row of a
  block after a pass is a function of the block alone.\<close>

lemma int64_exact: "in_int64 x \<Longrightarrow> int64 x = x"
  by (simp add: in_int64_def int64_def)

lemma in_int64_int64: "in_int64 (int64 x)"
proof -
  have "0 \<le> (x + 2 ^ 63) mod (2 ^ 64 :: int)" and "(x + 2 ^ 63) mod (2 ^ 64 :: int) < 2 ^ 64"
    by simp_all
  then show ?thesis
    by (simp add: in_int64_def int64_def)
qed

lemma float64_exact:
  assumes "\<bar>x\<bar> < 2 ^ 53"
  shows "float64 x = x"
proof -
  have "\<not> (2 :: int) ^ k \<le> \<bar>x\<bar>" if "k \<in> set [53..<64]" for k
  proof -
    from that have "53 \<le> k" by (simp only: set_upt atLeastLessThan_iff)
    then have "(2 :: int) ^ 53 \<le> 2 ^ k"
      by (intro power_increasing) simp_all
    with assms show ?thesis by simp
  qed
  then have "filter (\<lambda>k. (2 :: int) ^ k \<le> \<bar>x\<bar>) [53..<64] = []"
    by (simp only: filter_empty_conv) blast
  then show ?thesis
    by (simp add: float64_def)
qed

lemma length_forward_pass: "length (forward_pass df_all) = length (qorient_isin ''+'' df_all)"
  by (simp add: forward_pass_def assign_def loc_assign_def Let_def)

lemma forward_pass_nth:
  assumes "i < length (qorient_isin ''+'' df_all)"
  shows "forward_pass df_all ! i =
     (let b = qorient_isin ''+'' df_all ! i in
      if rorient b = Some ''+''
        then b\<lparr>qend := Some (int64 (qstart b + qlen b)),
               rend := Some (float64 (int64 (rstart b + rlen b)))\<rparr>
      else if rorient b = Some ''-''
        then b\<lparr>rstart := int64 (rstart b - rlen b),
               qend := Some (int64 (qstart b + qlen b)),
               rend := Some (float64 (rstart b))\<rparr>
      else b\<lparr>qend := Some (int64 (qstart b + qlen b))\<rparr>)"
  using assms by (simp add: forward_pass_def assign_def loc_assign_def Let_def)

lemma reverse_pass_rows:
  assumes "in_int64 L"
  shows "reverse_pass L df_all =
     Inr (map (\<lambda>b. b\<lparr>qstart := int64 (L - qstart b),
                      qend := Some (int64 (int64 (L - qstart b) - qlen b)),
                      rend := Some (int64 (rstart b + rlen b))\<rparr>)
            (qorient_isin ''-'' df_all))"
  using assms by (simp add: reverse_pass_def assign_def Let_def)

lemma dotplot_assembly_table:
  assumes "maf_table maf = Inr (Some L, df_all)" and "in_int64 L"
  shows "dotplot_assembly maf =
     Inr [Segment ''black'' (forward_pass df_all),
          Segment ''red''
            (map (\<lambda>b. b\<lparr>qstart := int64 (L - qstart b),
                      qend := Some (int64 (int64 (L - qstart b) - qlen b)),
                      rend := Some (int64 (rstart b + rlen b))\<rparr>)
               (qorient_isin ''-'' df_all))]"
  using assms by (simp add: dotplot_assembly_def reverse_pass_rows)

text \<open>
  C2, as the code has it. For every parsed alignment block with forward query
  and reverse reference, the emitted segment's reference end is the parsed
  reference start converted to double precision, which is the parsed start
  itself below \<open>2 ^ 53\<close> in absolute value; its reference start is the parsed
  reference start minus the reference length in the 64-bit arithmetic of the
  column, which is the integer difference whenever that lies in the 64-bit
  range. The end is taken from the start before the start is overwritten. The
  blocks with a forward query are the rows \<open>qorient_isin ''+'' df_all\<close> of the
  parsed table; the black glyph holds one segment for each, in the same order.
\<close>

theorem forward_query_reverse_reference:
  assumes "maf_table maf = Inr (Some L, df_all)" and "in_int64 L"
    and "i < length (qorient_isin ''+'' df_all)"
    and "rorient (qorient_isin ''+'' df_all ! i) = Some ''-''"
  shows "\<exists>black red. dotplot_assembly maf = Inr [black, red] \<and>
           line_color black = ''black'' \<and>
           length (segments black) = length (qorient_isin ''+'' df_all) \<and>
           x1 (segments black ! i) = Some (float64 (rstart (qorient_isin ''+'' df_all ! i))) \<and>
           x0 (segments black ! i) =
             int64 (rstart (qorient_isin ''+'' df_all ! i) - rlen (qorient_isin ''+'' df_all ! i)) \<and>
           (\<bar>rstart (qorient_isin ''+'' df_all ! i)\<bar> < 2 ^ 53 \<longrightarrow>
              x1 (segments black ! i) = Some (rstart (qorient_isin ''+'' df_all ! i))) \<and>
           (in_int64 (rstart (qorient_isin ''+'' df_all ! i) - rlen (qorient_isin ''+'' df_all ! i)) \<longrightarrow>
              x0 (segments black ! i) =
                rstart (qorient_isin ''+'' df_all ! i) - rlen (qorient_isin ''+'' df_all ! i))"
proof -
  let ?b = "qorient_isin ''+'' df_all ! i"
  have len: "i < length (forward_pass df_all)"
    using assms(3) by (simp add: length_forward_pass)
  have row: "forward_pass df_all ! i =
      ?b\<lparr>rstart := int64 (rstart ?b - rlen ?b),
         qend := Some (int64 (qstart ?b + qlen ?b)),
         rend := Some (float64 (rstart ?b))\<rparr>"
    using assms(4) by (simp add: forward_pass_nth [OF assms(3)] Let_def)
  show ?thesis
    using len row
    by (simp add: dotplot_assembly_table [OF assms(1,2)] Segment_def length_forward_pass
        float64_exact int64_exact)
qed

theorem forward_query_reverse_reference_witness:
  "\<exists>black red.
     dotplot_assembly
       [''# letters=1000\<newline>'', ''a score=10\<newline>'', ''s ref 40 10 - 100 ACGTACGTAC\<newline>'',
        ''s qry 20 10 + 1000 ACGTACGTAC\<newline>'', ''\<newline>''] = Inr [black, red] \<and>
     line_color black = ''black'' \<and>
     length (segments black) = 1 \<and>
     x1 (segments black ! 0) = Some 40 \<and>
     x0 (segments black ! 0) = 30"
proof -
  let ?maf = "[''# letters=1000\<newline>'', ''a score=10\<newline>'', ''s ref 40 10 - 100 ACGTACGTAC\<newline>'',
        ''s qry 20 10 + 1000 ACGTACGTAC\<newline>'', ''\<newline>'']"
  let ?b = "\<lparr>ref = Some ''ref'', rstart = 40, rlen = 10, rorient = Some ''-'',
             query = Some ''qry'', qstart = 20, qlen = 10, qorient = Some ''+'',
             qend = None, rend = None\<rparr> :: int row"
  have t: "maf_table ?maf = Inr (Some 1000, [?b])"
    by code_simp
  have L: "in_int64 1000"
    by (simp add: in_int64_def)
  have f: "qorient_isin ''+'' [?b] = [?b]"
    by (simp add: qorient_isin_def)
  have "\<exists>black red. dotplot_assembly ?maf = Inr [black, red] \<and>
     line_color black = ''black'' \<and>
     length (segments black) = 1 \<and>
     x1 (segments black ! 0) = Some 40 \<and>
     x0 (segments black ! 0) = 30"
    using forward_query_reverse_reference [OF t L, of 0]
    by (simp add: f in_int64_def) blast
  then show ?thesis .
qed

text \<open>
  C2, as stated, fails at the ends of the ranges: the reference start
  9007199254740993 has no double, so the emitted reference end is
  9007199254740992; and the reference start -9223372036854775808 minus the length
  1 wraps around to 9223372036854775807.
\<close>

theorem forward_query_reverse_reference_counterexample:
  "dotplot_assembly
     [''# letters=1000\<newline>'',
      ''a score=1\<newline>'',
      ''s ref 9007199254740993 1 - 9007199254740999 A\<newline>'',
      ''s qry 20 1 + 1000 A\<newline>'',
      ''\<newline>'',
      ''a score=1\<newline>'',
      ''s ref -9223372036854775808 1 - 100 A\<newline>'',
      ''s qry 30 1 + 1000 A\<newline>'',
      ''\<newline>'']
   = Inr [\<lparr>line_color = ''black'',
            segments =
              [\<lparr>x0 = 9007199254740992, y0 = 20, x1 = Some 9007199254740992, y1 = Some 21\<rparr>,
               \<lparr>x0 = 9223372036854775807, y0 = 30,
                 x1 = Some (- 9223372036854775808), y1 = Some 31\<rparr>]\<rparr>,
          \<lparr>line_color = ''red'', segments = []\<rparr>] \<and>
   (9007199254740992 :: int) \<noteq> 9007199254740993 \<and>
   (9223372036854775807 :: int) \<noteq> - 9223372036854775808 - 1"
  by code_simp

text \<open>
  C3, as the code has it. For every parsed alignment block with reverse query,
  with \<open>L\<close> the value of \<^verbatim>\<open>read_length\<close> read from the \<^verbatim>\<open>letters=\<close>
  comment and lying in the 64-bit range, the emitted segment's query start is
  \<open>L\<close> minus the parsed query start, and its query end is that mirrored start
  minus the query length, both in the 64-bit arithmetic of the columns: they are
  the integer differences whenever those lie in the 64-bit range.
\<close>

theorem reverse_query_mirror:
  assumes "maf_table maf = Inr (Some L, df_all)" and "in_int64 L"
    and "i < length (qorient_isin ''-'' df_all)"
  shows "\<exists>black red. dotplot_assembly maf = Inr [black, red] \<and>
           line_color red = ''red'' \<and>
           length (segments red) = length (qorient_isin ''-'' df_all) \<and>
           y0 (segments red ! i) = int64 (L - qstart (qorient_isin ''-'' df_all ! i)) \<and>
           y1 (segments red ! i) =
             Some (int64 (y0 (segments red ! i) - qlen (qorient_isin ''-'' df_all ! i))) \<and>
           (in_int64 (L - qstart (qorient_isin ''-'' df_all ! i)) \<longrightarrow>
              y0 (segments red ! i) = L - qstart (qorient_isin ''-'' df_all ! i)) \<and>
           (in_int64 (y0 (segments red ! i) - qlen (qorient_isin ''-'' df_all ! i)) \<longrightarrow>
              y1 (segments red ! i) =
                Some (y0 (segments red ! i) - qlen (qorient_isin ''-'' df_all ! i)))"
  using assms(3)
  by (simp add: dotplot_assembly_table [OF assms(1,2)] Segment_def int64_exact)

theorem reverse_query_mirror_witness:
  "\<exists>black red.
     dotplot_assembly
       [''# letters=1000\<newline>'', ''a score=8\<newline>'', ''s ref 30 4 + 100 ACGT\<newline>'',
        ''s qry 50 4 - 1000 ACGT\<newline>'', ''\<newline>''] = Inr [black, red] \<and>
     line_color red = ''red'' \<and>
     length (segments red) = 1 \<and>
     y0 (segments red ! 0) = 950 \<and>
     y1 (segments red ! 0) = Some 946"
proof -
  let ?maf = "[''# letters=1000\<newline>'', ''a score=8\<newline>'', ''s ref 30 4 + 100 ACGT\<newline>'',
        ''s qry 50 4 - 1000 ACGT\<newline>'', ''\<newline>'']"
  let ?b = "\<lparr>ref = Some ''ref'', rstart = 30, rlen = 4, rorient = Some ''+'',
             query = Some ''qry'', qstart = 50, qlen = 4, qorient = Some ''-'',
             qend = None, rend = None\<rparr> :: int row"
  have t: "maf_table ?maf = Inr (Some 1000, [?b])"
    by code_simp
  have L: "in_int64 1000"
    by (simp add: in_int64_def)
  have f: "qorient_isin ''-'' [?b] = [?b]"
    by (simp add: qorient_isin_def)
  from reverse_query_mirror [OF t L, of 0] obtain black red where
    p: "dotplot_assembly ?maf = Inr [black, red]" "line_color red = ''red''"
      "length (segments red) = 1"
    and a: "in_int64 (1000 - 50) \<longrightarrow> y0 (segments red ! 0) = 1000 - 50"
    and b: "in_int64 (y0 (segments red ! 0) - 4) \<longrightarrow>
              y1 (segments red ! 0) = Some (y0 (segments red ! 0) - 4)"
    by (auto simp: f)
  from a have y0: "y0 (segments red ! 0) = 950"
    by (simp add: in_int64_def)
  with b have "y1 (segments red ! 0) = Some 946"
    by (simp add: in_int64_def)
  with p y0 show ?thesis by blast
qed

text \<open>
  C3, as stated, fails where a difference leaves the 64-bit range: with
  \<^verbatim>\<open>letters=10\<close> the query start -9223372036854775808 is mirrored to
  -9223372036854775798, and the query start 9223372036854775807 with length 20
  gives the query end 9223372036854775799.
\<close>

theorem reverse_query_mirror_counterexample:
  "dotplot_assembly
     [''# letters=10\<newline>'',
      ''a score=1\<newline>'',
      ''s ref 30 4 + 100 ACGT\<newline>'',
      ''s qry -9223372036854775808 4 - 1000 ACGT\<newline>'',
      ''\<newline>'',
      ''a score=1\<newline>'',
      ''s ref 40 20 + 100 ACGTACGTACGTACGTACGT\<newline>'',
      ''s qry 9223372036854775807 20 - 1000 ACGTACGTACGTACGTACGT\<newline>'',
      ''\<newline>'']
   = Inr [\<lparr>line_color = ''black'', segments = []\<rparr>,
          \<lparr>line_color = ''red'',
            segments =
              [\<lparr>x0 = 30, y0 = - 9223372036854775798, x1 = Some 34,
                 y1 = Some (- 9223372036854775802)\<rparr>,
               \<lparr>x0 = 40, y0 = - 9223372036854775797, x1 = Some 60,
                 y1 = Some 9223372036854775799\<rparr>]\<rparr>] \<and>
   (- 9223372036854775798 :: int) \<noteq> 10 - (- 9223372036854775808) \<and>
   (9223372036854775799 :: int) \<noteq> - 9223372036854775797 - 20"
  by code_simp

text \<open>
  C4, as the code has it. For every parsed alignment block with reverse query,
  the emitted segment's reference start is the parsed one and its reference end
  is reference start plus reference length in the 64-bit arithmetic of the
  column (the integer sum whenever that lies in the 64-bit range), whatever the
  block's reference orientation: the statement has no condition on \<open>rorient\<close>,
  and the example below has a reverse reference.
\<close>

theorem reverse_query_reference_end:
  assumes "maf_table maf = Inr (Some L, df_all)" and "in_int64 L"
    and "i < length (qorient_isin ''-'' df_all)"
  shows "\<exists>black red. dotplot_assembly maf = Inr [black, red] \<and>
           line_color red = ''red'' \<and>
           length (segments red) = length (qorient_isin ''-'' df_all) \<and>
           x0 (segments red ! i) = rstart (qorient_isin ''-'' df_all ! i) \<and>
           x1 (segments red ! i) =
             Some (int64 (rstart (qorient_isin ''-'' df_all ! i) +
                          rlen (qorient_isin ''-'' df_all ! i))) \<and>
           (in_int64 (rstart (qorient_isin ''-'' df_all ! i) +
                      rlen (qorient_isin ''-'' df_all ! i)) \<longrightarrow>
              x1 (segments red ! i) =
                Some (rstart (qorient_isin ''-'' df_all ! i) +
                      rlen (qorient_isin ''-'' df_all ! i)))"
  using assms(3)
  by (simp add: dotplot_assembly_table [OF assms(1,2)] Segment_def int64_exact)

theorem reverse_query_reference_end_witness:
  "\<exists>black red.
     dotplot_assembly
       [''# letters=1000\<newline>'', ''a score=8\<newline>'', ''s ref 30 4 - 100 ACGT\<newline>'',
        ''s qry 50 4 - 1000 ACGT\<newline>'', ''\<newline>''] = Inr [black, red] \<and>
     line_color red = ''red'' \<and>
     length (segments red) = 1 \<and>
     x0 (segments red ! 0) = 30 \<and>
     x1 (segments red ! 0) = Some 34"
proof -
  let ?maf = "[''# letters=1000\<newline>'', ''a score=8\<newline>'', ''s ref 30 4 - 100 ACGT\<newline>'',
        ''s qry 50 4 - 1000 ACGT\<newline>'', ''\<newline>'']"
  let ?b = "\<lparr>ref = Some ''ref'', rstart = 30, rlen = 4, rorient = Some ''-'',
             query = Some ''qry'', qstart = 50, qlen = 4, qorient = Some ''-'',
             qend = None, rend = None\<rparr> :: int row"
  have t: "maf_table ?maf = Inr (Some 1000, [?b])"
    by code_simp
  have L: "in_int64 1000"
    by (simp add: in_int64_def)
  have f: "qorient_isin ''-'' [?b] = [?b]"
    by (simp add: qorient_isin_def)
  have "\<exists>black red. dotplot_assembly ?maf = Inr [black, red] \<and>
     line_color red = ''red'' \<and>
     length (segments red) = 1 \<and>
     x0 (segments red ! 0) = 30 \<and>
     x1 (segments red ! 0) = Some 34"
    using reverse_query_reference_end [OF t L, of 0]
    by (simp add: f in_int64_def) blast
  then show ?thesis .
qed

text \<open>
  C4, as stated, fails where the sum leaves the 64-bit range: the reference start
  9223372036854775807 plus the length 1 wraps around to -9223372036854775808.
\<close>

theorem reverse_query_reference_end_counterexample:
  "dotplot_assembly
     [''# letters=1000\<newline>'',
      ''a score=1\<newline>'',
      ''s ref 9223372036854775807 1 + 9223372036854775807 A\<newline>'',
      ''s qry 50 1 - 1000 A\<newline>'',
      ''\<newline>'']
   = Inr [\<lparr>line_color = ''black'', segments = []\<rparr>,
          \<lparr>line_color = ''red'',
            segments =
              [\<lparr>x0 = 9223372036854775807, y0 = 950,
                 x1 = Some (- 9223372036854775808), y1 = Some 949\<rparr>]\<rparr>] \<and>
   (- 9223372036854775808 :: int) \<noteq> 9223372036854775807 + 1"
  by code_simp

section \<open>What the loop accepts and what it rejects\<close>

text \<open>After any number of well-shaped chunks the loop is in some state that does
  not depend on what follows them; an exception of the loop is the exception of the
  whole function; the result depends on the file through the loop only.\<close>

lemma parse_loop_chunks:
  "list_all chunk_ok cs \<Longrightarrow>
   \<exists>rl' recs'. \<forall>rest.
     parse_loop rl recs (concat (map chunk_lines cs) @ rest) = parse_loop rl' recs' rest"
proof (induction cs arbitrary: rl recs)
  case Nil
  show ?case by auto
next
  case (Cons c cs)
  then have c: "chunk_ok c" and cs: "list_all chunk_ok cs"
    by simp_all
  show ?case
  proof (cases c)
    case (Comment l)
    with c have h: "startswith l ''#''" by simp
    show ?thesis
    proof (cases "py_in ''letters'' l")
      case False
      from Cons.IH [OF cs, of rl recs] obtain rl' recs' where
        "\<forall>rest. parse_loop rl recs (concat (map chunk_lines cs) @ rest) = parse_loop rl' recs' rest"
        by blast
      then show ?thesis
        using Comment h False by (auto simp: parse_loop_plain_comment)
    next
      case True
      with c Comment obtain t n where
        t: "index (py_split l ''letters='') 1 = Inr t" and n: "py_int t = Inr n"
        by (auto split: sum.splits)
      from Cons.IH [OF cs, of "Some n" recs] obtain rl' recs' where
        "\<forall>rest. parse_loop (Some n) recs (concat (map chunk_lines cs) @ rest)
           = parse_loop rl' recs' rest"
        by blast
      then show ?thesis
        using Comment h True t n by (auto simp: parse_loop_letters_comment)
    qed
  next
    case (Block a l1 l2 sep)
    with c have a: "startswith a ''a''" by simp
    from Cons.IH [OF cs, of rl "recs @ [slice 1 5 (split_ws l1) @ slice 1 5 (split_ws l2)]"]
    obtain rl' recs' where
      "\<forall>rest. parse_loop rl (recs @ [slice 1 5 (split_ws l1) @ slice 1 5 (split_ws l2)])
                 (concat (map chunk_lines cs) @ rest) = parse_loop rl' recs' rest"
      by blast
    then show ?thesis
      using Block a by (auto simp: parse_loop_block readline_Cons)
  qed
qed

lemma dotplot_assembly_parse_error:
  "parse_loop None [] maf = Inl e \<Longrightarrow> dotplot_assembly maf = Inl e"
  by (simp add: dotplot_assembly_def maf_table_def)

lemma dotplot_assembly_cong:
  "parse_loop None [] maf = parse_loop None [] maf' \<Longrightarrow>
   dotplot_assembly maf = dotplot_assembly maf'"
  by (simp add: dotplot_assembly_def maf_table_def)

text \<open>
  C9. A line read at the head of the loop that begins with neither \<^verbatim>\<open>#\<close> nor
  \<^verbatim>\<open>a\<close>: when it is the empty string of the end of the file, the loop ends
  with its state as the result; otherwise the exception
  \<^verbatim>\<open>IOError("Cannot read alignment file")\<close> is raised and is the result of the
  whole function. The first two conjuncts are one iteration in any state; the last
  two place the line after any well-shaped chunks of a file.
\<close>

theorem toplevel_other_line:
  assumes "\<not> startswith line ''#''" and "\<not> startswith line ''a''"
    and "list_all chunk_ok cs"
  shows "parse_loop rl recs [] = Inr (rl, recs) \<and>
         parse_loop rl recs (line # rest) =
           (if line = [] then Inr (rl, recs)
            else Inl (IOError ''Cannot read alignment file'')) \<and>
         (\<exists>st. parse_loop None [] (concat (map chunk_lines cs)) = Inr st) \<and>
         (if line = []
          then \<exists>st. parse_loop None [] (concat (map chunk_lines cs) @ line # rest) = Inr st
          else dotplot_assembly (concat (map chunk_lines cs) @ line # rest) =
                 Inl (IOError ''Cannot read alignment file''))"
proof -
  from parse_loop_chunks [OF assms(3), of None "[]"] obtain rl' recs' where
    pre: "\<And>rest. parse_loop None [] (concat (map chunk_lines cs) @ rest)
            = parse_loop rl' recs' rest"
    by blast
  have step: "parse_loop rl recs (line # rest) =
           (if line = [] then Inr (rl, recs)
            else Inl (IOError ''Cannot read alignment file''))" for rl recs
    using assms(1,2) by (rule parse_loop_other)
  have eof: "parse_loop None [] (concat (map chunk_lines cs)) = Inr (rl', recs')"
    using pre [of "[]"] by (simp add: parse_loop_eof)
  have "line \<noteq> [] \<Longrightarrow> dotplot_assembly (concat (map chunk_lines cs) @ line # rest) =
                 Inl (IOError ''Cannot read alignment file'')"
    by (rule dotplot_assembly_parse_error) (simp add: pre step)
  moreover have "line = [] \<Longrightarrow>
      parse_loop None [] (concat (map chunk_lines cs) @ line # rest) = Inr (rl', recs')"
    using step [of rl' recs'] by (simp add: pre)
  ultimately show ?thesis
    using step eof by (auto simp: parse_loop_eof)
qed

theorem toplevel_other_line_witness:
  "dotplot_assembly
     [''# letters=1000\<newline>'', ''# batch 0\<newline>'',
      ''a score=10\<newline>'', ''s ref 10 5 + 100 ACGTA\<newline>'', ''s qry 20 5 + 1000 ACGTA\<newline>'', ''\<newline>'',
      ''\<newline>'',
      ''a score=8\<newline>''] = Inl (IOError ''Cannot read alignment file'') \<and>
   parse_loop (Some 7) [] [''\<newline>'', ''a score=8\<newline>''] = Inl (IOError ''Cannot read alignment file'') \<and>
   parse_loop (Some 7) [] ['''', ''a score=8\<newline>''] = Inr (Some 7, []) \<and>
   parse_loop (Some 7) [] [] = Inr (Some 7, [])"
proof -
  let ?cs = "[Comment ''# letters=1000\<newline>'', Comment ''# batch 0\<newline>'',
      Block ''a score=10\<newline>'' ''s ref 10 5 + 100 ACGTA\<newline>'' ''s qry 20 5 + 1000 ACGTA\<newline>'' ''\<newline>'']"
  have ok: "list_all chunk_ok ?cs"
    by code_simp
  have h: "\<not> startswith ''\<newline>'' ''#''" and a: "\<not> startswith ''\<newline>'' ''a''"
    by (simp_all add: startswith_def)
  have h0: "\<not> startswith '''' ''#''" and a0: "\<not> startswith '''' ''a''"
    by (simp_all add: startswith_def)
  show ?thesis
    using toplevel_other_line [OF h a ok, of "Some 7" "[]" "[''a score=8\<newline>'']"]
      toplevel_other_line [OF h0 a0 ok, of "Some 7" "[]" "[''a score=8\<newline>'']"]
    by simp
qed

text \<open>
  C10. The fourth line of a block is read and thrown away: the state after the
  block holds the tokens of the second and third lines only, the end of the file
  in place of the fourth line gives the same record, and replacing the fourth
  line by any other line leaves the result of the whole function unchanged. In the
  example the fourth lines are an \<^verbatim>\<open>a\<close> line and a malformed \<^verbatim>\<open>s\<close> line.
\<close>

theorem block_fourth_line_discarded:
  assumes "list_all chunk_ok cs" and "startswith a ''a''"
  shows "parse_loop rl recs (a # l1 # l2 # sep # rest) =
           parse_loop rl (recs @ [slice 1 5 (split_ws l1) @ slice 1 5 (split_ws l2)]) rest \<and>
         parse_loop rl recs [a, l1, l2] =
           Inr (rl, recs @ [slice 1 5 (split_ws l1) @ slice 1 5 (split_ws l2)]) \<and>
         dotplot_assembly (concat (map chunk_lines cs) @ a # l1 # l2 # sep # rest) =
           dotplot_assembly (concat (map chunk_lines cs) @ a # l1 # l2 # sep' # rest)"
proof -
  have step: "parse_loop rl recs (a # l1 # l2 # sep # rest) =
           parse_loop rl (recs @ [slice 1 5 (split_ws l1) @ slice 1 5 (split_ws l2)]) rest"
    for rl recs sep
    using assms(2) by (simp add: parse_loop_block readline_Cons)
  have last: "parse_loop rl recs [a, l1, l2] =
           Inr (rl, recs @ [slice 1 5 (split_ws l1) @ slice 1 5 (split_ws l2)])"
    using assms(2) by (simp add: parse_loop_block readline_Cons parse_loop_eof)
  from parse_loop_chunks [OF assms(1), of None "[]"] obtain rl' recs' where
    pre: "\<And>rest. parse_loop None [] (concat (map chunk_lines cs) @ rest)
            = parse_loop rl' recs' rest"
    by blast
  have "dotplot_assembly (concat (map chunk_lines cs) @ a # l1 # l2 # sep # rest) =
           dotplot_assembly (concat (map chunk_lines cs) @ a # l1 # l2 # sep' # rest)"
    by (rule dotplot_assembly_cong) (simp add: pre step)
  then show ?thesis
    using step last by simp
qed

theorem block_fourth_line_discarded_witness:
  "dotplot_assembly
     [''# letters=1000\<newline>'',
      ''a score=10\<newline>'', ''s ref 10 5 + 100 ACGTA\<newline>'', ''s qry 20 5 + 1000 ACGTA\<newline>'',
      ''a this header line is thrown away\<newline>'',
      ''a score=8\<newline>'', ''s ref 30 4 + 100 ACGT\<newline>'', ''s qry 50 4 - 1000 ACGT\<newline>'',
      ''s not a number\<newline>'']
   = Inr [\<lparr>line_color = ''black'',
            segments = [\<lparr>x0 = 10, y0 = 20, x1 = Some 15, y1 = Some 25\<rparr>]\<rparr>,
          \<lparr>line_color = ''red'',
            segments = [\<lparr>x0 = 30, y0 = 950, x1 = Some 34, y1 = Some 946\<rparr>]\<rparr>]"
proof -
  let ?c1 = "Comment ''# letters=1000\<newline>''"
  let ?b1 = "Block ''a score=10\<newline>'' ''s ref 10 5 + 100 ACGTA\<newline>''
               ''s qry 20 5 + 1000 ACGTA\<newline>'' ''\<newline>''"
  have ok1: "list_all chunk_ok [?c1]" and ok2: "list_all chunk_ok [?c1, ?b1]"
    by code_simp+
  have a1: "startswith ''a score=10\<newline>'' ''a''" and a2: "startswith ''a score=8\<newline>'' ''a''"
    by (simp_all add: startswith_def)
  have plain: "dotplot_assembly
     [''# letters=1000\<newline>'',
      ''a score=10\<newline>'', ''s ref 10 5 + 100 ACGTA\<newline>'', ''s qry 20 5 + 1000 ACGTA\<newline>'',
      ''\<newline>'',
      ''a score=8\<newline>'', ''s ref 30 4 + 100 ACGT\<newline>'', ''s qry 50 4 - 1000 ACGT\<newline>'',
      ''\<newline>'']
   = Inr [\<lparr>line_color = ''black'',
            segments = [\<lparr>x0 = 10, y0 = 20, x1 = Some 15, y1 = Some 25\<rparr>]\<rparr>,
          \<lparr>line_color = ''red'',
            segments = [\<lparr>x0 = 30, y0 = 950, x1 = Some 34, y1 = Some 946\<rparr>]\<rparr>]"
    by code_simp
  show ?thesis
    using block_fourth_line_discarded [OF ok1 a1,
        of None "[]" "''s ref 10 5 + 100 ACGTA\<newline>''" "''s qry 20 5 + 1000 ACGTA\<newline>''"
           "''a this header line is thrown away\<newline>''"
           "[''a score=8\<newline>'', ''s ref 30 4 + 100 ACGT\<newline>'', ''s qry 50 4 - 1000 ACGT\<newline>'',
             ''s not a number\<newline>'']" "''\<newline>''"]
      block_fourth_line_discarded [OF ok2 a2,
        of None "[]" "''s ref 30 4 + 100 ACGT\<newline>''" "''s qry 50 4 - 1000 ACGT\<newline>''"
           "''s not a number\<newline>''" "[]" "''\<newline>''"]
      plain
    by simp
qed

text \<open>
  C6, as the code has it. The loop never tests that a line of a block is an
  \<^verbatim>\<open>s\<close> line; what it rejects is the line it reads after the four lines of a
  block (or after any other chunk) when that line is not empty and begins with
  neither \<^verbatim>\<open>#\<close> nor \<^verbatim>\<open>a\<close>. Then the whole function raises the IOError and
  returns no glyph.
\<close>

theorem line_after_block_rejected:
  assumes "list_all chunk_ok cs" and "startswith a ''a''"
    and "l \<noteq> []" and "\<not> startswith l ''#''" and "\<not> startswith l ''a''"
  shows "dotplot_assembly (concat (map chunk_lines cs) @ a # l1 # l2 # sep # l # rest) =
           Inl (IOError ''Cannot read alignment file'')"
proof -
  have ok: "list_all chunk_ok (cs @ [Block a l1 l2 sep])"
    using assms(1,2) by simp
  from parse_loop_chunks [OF ok, of None "[]"] obtain rl' recs' where
    pre: "\<And>rest. parse_loop None [] (concat (map chunk_lines (cs @ [Block a l1 l2 sep])) @ rest)
            = parse_loop rl' recs' rest"
    by blast
  have "parse_loop None [] (concat (map chunk_lines cs) @ a # l1 # l2 # sep # l # rest)
          = parse_loop rl' recs' (l # rest)"
    using pre [of "l # rest"] by simp
  also have "\<dots> = Inl (IOError ''Cannot read alignment file'')"
    using assms(3-5) by (simp add: parse_loop_other)
  finally show ?thesis
    by (rule dotplot_assembly_parse_error)
qed

theorem line_after_block_rejected_witness:
  "dotplot_assembly
     [''# letters=1000\<newline>'',
      ''a score=10\<newline>'', ''s ref 10 5 + 100 ACGTA\<newline>'', ''s qry 20 5 + 1000 ACGTA\<newline>'',
      ''s qry2 20 5 + 1000 ACGTA\<newline>'', ''\<newline>'']
   = Inl (IOError ''Cannot read alignment file'')"
proof -
  have ok: "list_all chunk_ok [Comment ''# letters=1000\<newline>'']"
    by code_simp
  have a: "startswith ''a score=10\<newline>'' ''a''"
    and l: "''\<newline>'' \<noteq> []" "\<not> startswith ''\<newline>'' ''#''" "\<not> startswith ''\<newline>'' ''a''"
    by (simp_all add: startswith_def)
  show ?thesis
    using line_after_block_rejected [OF ok a l,
        of "''s ref 10 5 + 100 ACGTA\<newline>''" "''s qry 20 5 + 1000 ACGTA\<newline>''"
           "''s qry2 20 5 + 1000 ACGTA\<newline>''" "[]"]
    by simp
qed

text \<open>
  C6, as stated, fails: in this file neither the second nor the third line after
  the \<^verbatim>\<open>a\<close> line is an \<^verbatim>\<open>s\<close> line, and the function returns a plot with a
  segment.
\<close>

theorem unchecked_sequence_lines_counterexample:
  "\<not> startswith ''x qry 20 5 + 1000 ACGTA\<newline>'' ''s'' \<and>
   \<not> startswith ''\<newline>'' ''s'' \<and>
   dotplot_assembly
     [''# letters=1000\<newline>'',
      ''a score=10\<newline>'',
      ''s ref 10 5 + 100 ACGTA\<newline>'',
      ''x qry 20 5 + 1000 ACGTA\<newline>'',
      ''\<newline>'']
   = Inr [\<lparr>line_color = ''black'',
            segments = [\<lparr>x0 = 10, y0 = 20, x1 = Some 15, y1 = Some 25\<rparr>]\<rparr>,
          \<lparr>line_color = ''red'', segments = []\<rparr>]"
  by code_simp


section \<open>A file without a letters comment\<close>

text \<open>Where the separator does not occur, \<^verbatim>\<open>split\<close> returns the string whole, and
  element 1 of the result does not exist. So a loop over a file with no comment
  line containing \<^verbatim>\<open>letters=\<close> never assigns \<^verbatim>\<open>read_length\<close>.\<close>

lemma split_sep_aux_absent:
  "\<not> py_in sep s \<Longrightarrow> split_sep_aux sep 0 cur s = [rev cur @ s]"
  by (induction s arbitrary: cur) simp_all

lemma py_split_absent: "\<not> py_in sep s \<Longrightarrow> index (py_split s sep) 1 = Inl IndexError"
  by (simp add: py_split_def split_sep_aux_absent index_def)

lemma no_letters_comment_tl: "no_letters_comment maf \<Longrightarrow> no_letters_comment (tl maf)"
  by (cases maf) (simp_all add: no_letters_comment_def)

lemma parse_loop_keeps_read_length:
  "no_letters_comment maf \<Longrightarrow> parse_loop rl recs maf = Inr (rl', recs') \<Longrightarrow> rl' = rl"
proof (induction "length maf" arbitrary: maf rl recs rule: less_induct)
  case less
  show ?case
  proof (cases maf)
    case Nil
    with less.prems show ?thesis by (simp add: parse_loop_eof)
  next
    case (Cons l rest)
    with less.prems have nl: "\<not> (startswith l ''#'' \<and> py_in ''letters='' l)"
      and nrest: "no_letters_comment rest"
      by (simp_all add: no_letters_comment_def)
    consider (comment) "startswith l ''#''"
      | (block) "\<not> startswith l ''#''" "startswith l ''a''"
      | (other) "\<not> startswith l ''#''" "\<not> startswith l ''a''"
      by blast
    then show ?thesis
    proof cases
      case comment
      with nl have absent: "\<not> py_in ''letters='' l" by simp
      show ?thesis
      proof (cases "py_in ''letters'' l")
        case True
        have "index (py_split l ''letters='') 1 = Inl IndexError"
          using absent by (rule py_split_absent)
        with True comment less.prems(2) Cons show ?thesis
          by (simp add: parse_loop_letters_comment)
      next
        case False
        with comment less.prems(2) Cons
        have "parse_loop rl recs rest = Inr (rl', recs')"
          by (simp add: parse_loop_plain_comment)
        with less.hyps [of rest] nrest Cons show ?thesis by simp
      qed
    next
      case block
      let ?recs = "recs @ [slice 1 5 (split_ws (fst (readline rest))) @
                slice 1 5 (split_ws (fst (readline (tl rest))))]"
      from block less.prems(2) Cons
      have run: "parse_loop rl ?recs (tl (tl (tl rest))) = Inr (rl', recs')"
        by (simp add: parse_loop_block)
      have "no_letters_comment (tl (tl (tl rest)))"
        using nrest by (intro no_letters_comment_tl)
      moreover have "length (tl (tl (tl rest))) < length maf"
        using Cons by simp
      ultimately show ?thesis
        using less.hyps [of "tl (tl (tl rest))" rl ?recs] run by simp
    next
      case other
      with less.prems(2) Cons show ?thesis
        by (simp add: parse_loop_other split: if_splits)
    qed
  qed
qed

text \<open>
  C7, as the code has it. A file with no comment line containing \<^verbatim>\<open>letters=\<close>
  never yields a plot. When its lines parse and its table is built, the failure is
  the UnboundLocalError of line 219, whatever the orientations of its blocks and
  even with no block at all; otherwise it is the exception raised earlier by the
  loop or the table.
\<close>

theorem missing_letters_fails:
  assumes "no_letters_comment maf"
  shows "(case maf_table maf of
            Inl e \<Rightarrow> dotplot_assembly maf = Inl e
          | Inr t \<Rightarrow> dotplot_assembly maf = Inl UnboundLocalError)"
proof (cases "maf_table maf")
  case (Inl e)
  then show ?thesis by (simp add: dotplot_assembly_def)
next
  case (Inr t)
  obtain rl df_all where t: "t = (rl, df_all)" by (cases t)
  from Inr t obtain recs where "parse_loop None [] maf = Inr (rl, recs)"
    by (auto simp: maf_table_def split: sum.splits)
  with assms have "rl = None"
    by (rule parse_loop_keeps_read_length)
  with Inr t show ?thesis by (simp add: dotplot_assembly_def)
qed

theorem missing_letters_fails_witness:
  "dotplot_assembly
     [''# batch 0\<newline>'', ''a score=10\<newline>'', ''s ref 10 5 + 100 ACGTA\<newline>'',
      ''s qry 20 5 + 1000 ACGTA\<newline>'', ''\<newline>'',
      ''a score=8\<newline>'', ''s ref 30 4 + 100 ACGT\<newline>'', ''s qry 50 4 - 1000 ACGT\<newline>'', ''\<newline>'']
     = Inl UnboundLocalError \<and>
   dotplot_assembly
     [''# batch 0\<newline>'', ''a score=10\<newline>'', ''s ref 10 5 + 100 ACGTA\<newline>'',
      ''s qry 20 5 + 1000 ACGTA\<newline>'', ''\<newline>'']
     = Inl UnboundLocalError \<and>
   dotplot_assembly [] = Inl UnboundLocalError"
proof -
  let ?both = "[''# batch 0\<newline>'', ''a score=10\<newline>'', ''s ref 10 5 + 100 ACGTA\<newline>'',
      ''s qry 20 5 + 1000 ACGTA\<newline>'', ''\<newline>'',
      ''a score=8\<newline>'', ''s ref 30 4 + 100 ACGT\<newline>'', ''s qry 50 4 - 1000 ACGT\<newline>'', ''\<newline>'']"
  let ?fwd = "[''# batch 0\<newline>'', ''a score=10\<newline>'', ''s ref 10 5 + 100 ACGTA\<newline>'',
      ''s qry 20 5 + 1000 ACGTA\<newline>'', ''\<newline>'']"
  have n1: "no_letters_comment ?both" and n2: "no_letters_comment ?fwd"
    and n3: "no_letters_comment []"
    by code_simp+
  have t1: "maf_table ?both = Inr (None,
      [\<lparr>ref = Some ''ref'', rstart = 10, rlen = 5, rorient = Some ''+'',
        query = Some ''qry'', qstart = 20, qlen = 5, qorient = Some ''+'',
        qend = None, rend = None\<rparr>,
       \<lparr>ref = Some ''ref'', rstart = 30, rlen = 4, rorient = Some ''+'',
        query = Some ''qry'', qstart = 50, qlen = 4, qorient = Some ''-'',
        qend = None, rend = None\<rparr>])"
    by code_simp
  have t2: "maf_table ?fwd = Inr (None,
      [\<lparr>ref = Some ''ref'', rstart = 10, rlen = 5, rorient = Some ''+'',
        query = Some ''qry'', qstart = 20, qlen = 5, qorient = Some ''+'',
        qend = None, rend = None\<rparr>])"
    by code_simp
  have t3: "maf_table [] = Inr (None, [])"
    by code_simp
  show ?thesis
    using missing_letters_fails [OF n1] missing_letters_fails [OF n2]
      missing_letters_fails [OF n3]
    by (simp add: t1 t2 t3)
qed

text \<open>
  C7, as stated, fails: this file has no \<^verbatim>\<open>letters=\<close> comment and a reverse query
  block; its first block lacks the fourth line, so the following \<^verbatim>\<open>a\<close> line is
  consumed in its place and the loop raises the IOError at the next \<^verbatim>\<open>s\<close> line,
  before \<^verbatim>\<open>read_length\<close> is ever read.
\<close>

theorem missing_letters_other_error_counterexample:
  "no_letters_comment
     [''a score=8\<newline>'', ''s ref 30 4 + 100 ACGT\<newline>'', ''s qry 50 4 - 1000 ACGT\<newline>'',
      ''a score=10\<newline>'', ''s ref 10 5 + 100 ACGTA\<newline>'', ''s qry 20 5 + 1000 ACGTA\<newline>'',
      ''\<newline>''] \<and>
   dotplot_assembly
     [''a score=8\<newline>'', ''s ref 30 4 + 100 ACGT\<newline>'', ''s qry 50 4 - 1000 ACGT\<newline>'',
      ''a score=10\<newline>'', ''s ref 10 5 + 100 ACGTA\<newline>'', ''s qry 20 5 + 1000 ACGTA\<newline>'',
      ''\<newline>''] = Inl (IOError ''Cannot read alignment file'') \<and>
   IOError ''Cannot read alignment file'' \<noteq> UnboundLocalError"
  by code_simp

section \<open>The fields taken from a sequence line\<close>

lemma slice_1_5:
  assumes "5 \<le> length ts"
  shows "slice 1 5 ts = [ts ! 1, ts ! 2, ts ! 3, ts ! 4]"
proof -
  from assms obtain t0 t1 t2 t3 t4 rest where "ts = t0 # t1 # t2 # t3 # t4 # rest"
    by (auto simp: numeral_eq_Suc Suc_le_length_iff)
  then show ?thesis
    by (simp add: slice_def numeral_eq_Suc)
qed

lemma DataFrame_one_row:
  "DataFrame [[a, b, c, d, e, f, g, h]] =
     Inr [\<lparr>ref = Some a, rstart = Some b, rlen = Some c, rorient = Some d,
           query = Some e, qstart = Some f, qlen = Some g, qorient = Some h,
           qend = None, rend = None\<rparr>]"
  by (simp add: DataFrame_def names_def pad_def mk_row_def)

text \<open>
  C5, as the code has it. From a sequence line with at least five tokens the
  loop takes the tokens at the 1-indexed positions 2 to 5. By the column names of
  line 198 they are the name of the sequence, its start, its length and its
  orientation. The token at position 6, the total length of the sequence, is not
  taken.
\<close>

theorem sequence_line_fields:
  assumes "startswith a ''a''"
    and "5 \<le> length (split_ws l1)" and "5 \<le> length (split_ws l2)"
  shows "slice 1 5 (split_ws l1) =
           [split_ws l1 ! 1, split_ws l1 ! 2, split_ws l1 ! 3, split_ws l1 ! 4] \<and>
         parse_loop rl recs (a # l1 # l2 # sep # rest) =
           parse_loop rl
             (recs @ [[split_ws l1 ! 1, split_ws l1 ! 2, split_ws l1 ! 3, split_ws l1 ! 4,
                       split_ws l2 ! 1, split_ws l2 ! 2, split_ws l2 ! 3, split_ws l2 ! 4]])
             rest \<and>
         DataFrame [[split_ws l1 ! 1, split_ws l1 ! 2, split_ws l1 ! 3, split_ws l1 ! 4,
                     split_ws l2 ! 1, split_ws l2 ! 2, split_ws l2 ! 3, split_ws l2 ! 4]] =
           Inr [\<lparr>ref = Some (split_ws l1 ! 1), rstart = Some (split_ws l1 ! 2),
                 rlen = Some (split_ws l1 ! 3), rorient = Some (split_ws l1 ! 4),
                 query = Some (split_ws l2 ! 1), qstart = Some (split_ws l2 ! 2),
                 qlen = Some (split_ws l2 ! 3), qorient = Some (split_ws l2 ! 4),
                 qend = None, rend = None\<rparr>]"
proof -
  have s1: "slice 1 5 (split_ws l1) =
           [split_ws l1 ! 1, split_ws l1 ! 2, split_ws l1 ! 3, split_ws l1 ! 4]"
    using assms(2) by (rule slice_1_5)
  have s2: "slice 1 5 (split_ws l2) =
           [split_ws l2 ! 1, split_ws l2 ! 2, split_ws l2 ! 3, split_ws l2 ! 4]"
    using assms(3) by (rule slice_1_5)
  have "parse_loop rl recs (a # l1 # l2 # sep # rest) =
          parse_loop rl (recs @ [slice 1 5 (split_ws l1) @ slice 1 5 (split_ws l2)]) rest"
    using assms(1) by (simp add: parse_loop_block readline_Cons)
  then have p: "parse_loop rl recs (a # l1 # l2 # sep # rest) =
           parse_loop rl
             (recs @ [[split_ws l1 ! 1, split_ws l1 ! 2, split_ws l1 ! 3, split_ws l1 ! 4,
                       split_ws l2 ! 1, split_ws l2 ! 2, split_ws l2 ! 3, split_ws l2 ! 4]])
             rest"
    unfolding s1 s2 by simp
  show ?thesis
    by (intro conjI) (rule s1, rule p, rule DataFrame_one_row)
qed

theorem sequence_line_fields_witness:
  "parse_loop (Some 1000) []
     [''a score=10\<newline>'', ''s ref 10 5 + 100 ACGTA\<newline>'', ''s qry 20 5 - 1000 ACGTA\<newline>'', ''\<newline>'']
     = Inr (Some 1000, [[''ref'', ''10'', ''5'', ''+'', ''qry'', ''20'', ''5'', ''-'']]) \<and>
   DataFrame [[''ref'', ''10'', ''5'', ''+'', ''qry'', ''20'', ''5'', ''-'']] =
     Inr [\<lparr>ref = Some ''ref'', rstart = Some ''10'', rlen = Some ''5'', rorient = Some ''+'',
           query = Some ''qry'', qstart = Some ''20'', qlen = Some ''5'', qorient = Some ''-'',
           qend = None, rend = None\<rparr>]"
proof -
  have a: "startswith ''a score=10\<newline>'' ''a''"
    by (simp add: startswith_def)
  have t1: "split_ws ''s ref 10 5 + 100 ACGTA\<newline>'' = [''s'', ''ref'', ''10'', ''5'', ''+'', ''100'', ''ACGTA'']"
    and t2: "split_ws ''s qry 20 5 - 1000 ACGTA\<newline>'' = [''s'', ''qry'', ''20'', ''5'', ''-'', ''1000'', ''ACGTA'']"
    by code_simp+
  have n1: "5 \<le> length (split_ws ''s ref 10 5 + 100 ACGTA\<newline>'')"
    and n2: "5 \<le> length (split_ws ''s qry 20 5 - 1000 ACGTA\<newline>'')"
    by (simp_all add: t1 t2)
  show ?thesis
    using sequence_line_fields [OF a n1 n2, of "Some 1000" "[]" "''\<newline>''" "[]"]
    by (simp add: t1 t2 parse_loop_eof)
qed

text \<open>
  C5, as stated, fails: the four tokens taken from this line are the name, the
  start, the length and the strand, not the start, the length, the strand and the
  total length 100; the table binds the second of them to \<open>rstart\<close>.
\<close>

theorem sequence_line_fields_counterexample:
  "slice 1 5 (split_ws ''s ref 10 5 + 100 ACGTA\<newline>'') = [''ref'', ''10'', ''5'', ''+''] \<and>
   slice 1 5 (split_ws ''s ref 10 5 + 100 ACGTA\<newline>'') \<noteq> [''10'', ''5'', ''+'', ''100''] \<and>
   maf_table
     [''# letters=1000\<newline>'', ''a score=10\<newline>'', ''s ref 10 5 + 100 ACGTA\<newline>'',
      ''s qry 20 5 + 1000 ACGTA\<newline>'', ''\<newline>'']
     = Inr (Some 1000,
        [\<lparr>ref = Some ''ref'', rstart = 10, rlen = 5, rorient = Some ''+'',
          query = Some ''qry'', qstart = 20, qlen = 5, qorient = Some ''+'',
          qend = None, rend = None\<rparr>])"
  by code_simp


section \<open>Comment lines\<close>

text \<open>\<^verbatim>\<open>split\<close> at the first occurrence of the separator: the text before it is
  element 0, and where the separator does not occur again the text after it is
  element 1.\<close>

lemma startswith_append: "startswith (p @ s) p"
  by (simp add: startswith_def)

lemma py_in_middle: "py_in sub (pre @ sub @ post)"
proof (induction pre)
  case Nil
  show ?case
  proof (cases "sub @ post")
    case Nil
    then show ?thesis by simp
  next
    case (Cons a list)
    then show ?thesis using startswith_append [of sub post] by simp
  qed
next
  case (Cons c pre)
  then show ?case by simp
qed

lemma split_sep_aux_skip:
  "split_sep_aux sep (length xs) cur (xs @ ys) = split_sep_aux sep 0 cur ys"
  by (induction xs) simp_all

lemma startswith_cut:
  assumes "length p \<le> length xs" and "startswith (xs @ ys) p"
  shows "startswith xs p"
  using assms by (simp add: startswith_def)

lemma split_sep_aux_first:
  assumes "sep \<noteq> []" and "\<not> py_in sep (pre @ butlast sep)"
  shows "split_sep_aux sep 0 cur (pre @ sep @ post) =
           (rev cur @ pre) # split_sep_aux sep 0 [] post"
  using assms(2)
proof (induction pre arbitrary: cur)
  case Nil
  from assms(1) obtain c cs where sep: "sep = c # cs" by (cases sep) auto
  have "split_sep_aux sep 0 cur (sep @ post) =
          rev cur # split_sep_aux sep (length cs) [] (cs @ post)"
    using startswith_append [of sep post] by (simp add: sep)
  then show ?case by (simp add: split_sep_aux_skip)
next
  case (Cons p pre)
  have here: "\<not> startswith ((p # pre) @ butlast sep) sep"
    and rest: "\<not> py_in sep (pre @ butlast sep)"
    using Cons.prems by simp_all
  have eq: "(p # pre) @ sep @ post = ((p # pre) @ butlast sep) @ ([last sep] @ post)"
    using assms(1) by simp
  have len: "length sep \<le> length ((p # pre) @ butlast sep)"
    by simp
  have "\<not> startswith ((p # pre) @ sep @ post) sep"
  proof
    assume "startswith ((p # pre) @ sep @ post) sep"
    then have "startswith (((p # pre) @ butlast sep) @ ([last sep] @ post)) sep"
      unfolding eq .
    with len have "startswith ((p # pre) @ butlast sep) sep"
      by (rule startswith_cut)
    with here show False ..
  qed
  then have "split_sep_aux sep 0 cur ((p # pre) @ sep @ post) =
               split_sep_aux sep 0 (p # cur) (pre @ sep @ post)"
    by simp
  with Cons.IH [OF rest, of "p # cur"] show ?case by simp
qed

lemma py_split_letters:
  assumes "\<not> py_in ''letters='' (pre @ ''letters'')" and "\<not> py_in ''letters='' post"
  shows "index (py_split (pre @ ''letters='' @ post) ''letters='') 1 = Inr post"
proof -
  have "split_sep_aux ''letters='' 0 [] (pre @ ''letters='' @ post) =
          pre # split_sep_aux ''letters='' 0 [] post"
    using split_sep_aux_first [of "''letters=''" pre "[]" post] assms(1) by simp
  also have "split_sep_aux ''letters='' 0 [] post = [post]"
    using assms(2) by (simp add: split_sep_aux_absent)
  finally show ?thesis
    by (simp add: py_split_def index_def)
qed

text \<open>
  C8, as the code has it. A line beginning with \<^verbatim>\<open>#\<close> that does not contain
  \<^verbatim>\<open>letters\<close> is skipped with the state unchanged. A line beginning with
  \<^verbatim>\<open>#\<close> in which \<^verbatim>\<open>letters=\<close> occurs once, at the end of \<open>pre\<close>, hands the
  whole text \<open>post\<close> after it to \<^verbatim>\<open>int\<close>: an integer literal becomes the new
  \<^verbatim>\<open>read_length\<close> whatever the old value was (so the last such line wins), and
  anything else raises the ValueError of \<^verbatim>\<open>int\<close>.
\<close>

theorem comment_line:
  assumes "startswith l ''#''"
  shows "(\<not> py_in ''letters'' l \<longrightarrow>
            parse_loop rl recs (l # rest) = parse_loop rl recs rest) \<and>
         (l = pre @ ''letters='' @ post \<and>
          \<not> py_in ''letters='' (pre @ ''letters'') \<and> \<not> py_in ''letters='' post \<longrightarrow>
            parse_loop rl recs (l # rest) =
              (case py_int post of
                 Inl e \<Rightarrow> Inl e
               | Inr n \<Rightarrow> parse_loop (Some n) recs rest))"
proof (intro conjI impI)
  assume "\<not> py_in ''letters'' l"
  with assms show "parse_loop rl recs (l # rest) = parse_loop rl recs rest"
    by (rule parse_loop_plain_comment)
next
  assume h: "l = pre @ ''letters='' @ post \<and>
          \<not> py_in ''letters='' (pre @ ''letters'') \<and> \<not> py_in ''letters='' post"
  then have l: "l = pre @ ''letters='' @ post" by simp
  have "py_in ''letters'' (pre @ ''letters'' @ (''='' @ post))"
    by (rule py_in_middle)
  then have "py_in ''letters'' l"
    by (simp add: l)
  moreover have "index (py_split l ''letters='') 1 = Inr post"
    unfolding l using h by (intro py_split_letters) simp_all
  ultimately show "parse_loop rl recs (l # rest) =
              (case py_int post of
                 Inl e \<Rightarrow> Inl e
               | Inr n \<Rightarrow> parse_loop (Some n) recs rest)"
    using assms by (simp add: parse_loop_letters_comment)
qed

theorem comment_line_witness:
  "parse_loop None []
     [''# Reference sequences=1 normal letters=4000\<newline>'',
      ''# batch 0\<newline>'',
      ''# Query sequences=1 normal letters=1000\<newline>'']
   = Inr (Some 1000, [])"
proof -
  let ?l1 = "''# Reference sequences=1 normal letters=4000\<newline>''"
  let ?l2 = "''# batch 0\<newline>''"
  let ?l3 = "''# Query sequences=1 normal letters=1000\<newline>''"
  have s: "startswith ?l1 ''#''" "startswith ?l2 ''#''" "startswith ?l3 ''#''"
    by (simp_all add: startswith_def)
  have plain: "\<not> py_in ''letters'' ?l2"
    by code_simp
  have e1: "?l1 = ''# Reference sequences=1 normal '' @ ''letters='' @ ''4000\<newline>''"
    and e3: "?l3 = ''# Query sequences=1 normal '' @ ''letters='' @ ''1000\<newline>''"
    by simp_all
  have f1: "\<not> py_in ''letters='' (''# Reference sequences=1 normal '' @ ''letters'')"
    and f3: "\<not> py_in ''letters='' (''# Query sequences=1 normal '' @ ''letters'')"
    and g1: "\<not> py_in ''letters='' ''4000\<newline>''" and g3: "\<not> py_in ''letters='' ''1000\<newline>''"
    by code_simp+
  have i1: "py_int ''4000\<newline>'' = Inr 4000" and i3: "py_int ''1000\<newline>'' = Inr 1000"
    by code_simp+
  have "parse_loop None [] [?l1, ?l2, ?l3] =
          (case py_int ''4000\<newline>'' of Inl e \<Rightarrow> Inl e
           | Inr n \<Rightarrow> parse_loop (Some n) [] [?l2, ?l3])"
    using comment_line [OF s(1), of None "[]" "[?l2, ?l3]"
        "''# Reference sequences=1 normal ''" "''4000\<newline>''"] e1 f1 g1
    by blast
  then have "parse_loop None [] [?l1, ?l2, ?l3] = parse_loop (Some 4000) [] [?l2, ?l3]"
    by (simp only: i1 sum.case)
  also have "\<dots> = parse_loop (Some 4000) [] [?l3]"
    using comment_line [OF s(2), of "Some 4000" "[]" "[?l3]"] plain by blast
  also have "\<dots> = (case py_int ''1000\<newline>'' of Inl e \<Rightarrow> Inl e
           | Inr n \<Rightarrow> parse_loop (Some n) [] [])"
    using comment_line [OF s(3), of "Some 4000" "[]" "[]"
        "''# Query sequences=1 normal ''" "''1000\<newline>''"] e3 f3 g3
    by blast
  also have "\<dots> = parse_loop (Some 1000) [] []"
    by (simp only: i3 sum.case)
  finally show ?thesis
    by (simp only: parse_loop_eof)
qed

text \<open>
  C8, as stated, fails twice. A comment line containing \<^verbatim>\<open>letters\<close> without the
  \<^verbatim>\<open>=\<close> is not ignored: line 180 tests for \<^verbatim>\<open>letters\<close>, line 181 splits at
  \<^verbatim>\<open>letters=\<close> and takes element 1 of a list of one element. A comment line
  with text after the integer is not read as that integer: \<^verbatim>\<open>int\<close> gets the
  rest of the line.
\<close>

theorem comment_line_counterexample:
  "startswith ''# letters 1000\<newline>'' ''#'' \<and>
   \<not> py_in ''letters='' ''# letters 1000\<newline>'' \<and>
   dotplot_assembly [''# letters 1000\<newline>''] = Inl IndexError \<and>
   startswith ''# letters=1000 bp\<newline>'' ''#'' \<and>
   py_in ''letters='' ''# letters=1000 bp\<newline>'' \<and>
   dotplot_assembly [''# letters=1000 bp\<newline>''] = Inl ValueError"
  by code_simp


end
